theory Spec2Isabelle
  imports Main "HOL-Library.Char_ord" "HOL-Library.List_Lexorder" "HOL-Library.Multiset"
begin

section \<open>The data model of the Toggl client\<close>

text \<open>
  A JavaScript \<open>Date\<close> is its time value, the milliseconds since the epoch. The
  timestamps of this program come from the remote's ISO strings and from the clock, so
  only valid dates are modelled (no NaN time value).
\<close>

datatype date = Date (getTime: int)

text \<open>
  A JSON value that the wire type declares a string: the string, or \<open>null\<close>.
  A key that is absent from the wire record is \<open>None\<close> at the field.
\<close>

datatype jsonString = JNull | JString string

text \<open>
  What a call can raise: the rejected promise of an HTTP request (a network failure or
  a status outside 2xx), and the \<open>TypeError\<close> of reading a property of
  \<open>undefined\<close> or \<open>null\<close>.
\<close>

datatype error = HttpError | TypeError

subsection \<open>Domain types (\<open>src/types\<close>, as \<open>TogglService.ts\<close> builds them)\<close>

record client =
  client_id :: int
  client_name :: string

record workspace =
  workspace_id :: int

record project =
  project_client :: "client option"
  project_color :: string
  project_id :: int
  project_name :: string
  project_workspace :: workspace

text \<open>
  \<open>project\<close> is the result of \<open>Array.prototype.find\<close>, which is
  \<open>undefined\<close> when no project matches; \<open>stop\<close> is a field that
  \<open>mapTimeEntry\<close> may leave unset.
\<close>

record timeEntry =
  entry_description :: string
  entry_duration :: "int option"
  entry_id :: int
  entry_project :: "project option"
  entry_start :: date
  entry_stop :: "date option"

subsection \<open>Wire types (\<open>services/toggl/types\<close>, by the fields the service reads)\<close>

record togglProject =
  tp_workspace_id :: int
  tp_client_id :: int
  tp_color :: string
  tp_id :: int
  tp_name :: string

record togglTimeEntry =
  tte_description :: string
  tte_duration :: "int option"
  tte_id :: int
  tte_project_id :: int
  tte_start :: string
  tte_stop :: "jsonString option"

subsection \<open>The stores\<close>

text \<open>
  \<open>TogglStore\<close> and \<open>TimeBookingStore\<close> are process-wide state
  containers. The service reads and writes the fields below; whatever else a store holds
  is the extension part of the record, so that a statement about \<open>more\<close> is a
  statement about every other field.
\<close>

record togglState =
  clients :: "client list"
  projects :: "project list"

record timeBookingState =
  s_day :: date
  s_description :: string
  s_start :: string
  s_entry :: "timeEntry option"
  s_projectId :: "int option"

record ('a, 'b) stores =
  togglStore :: "'a togglState_scheme"
  timeBookingStore :: "'b timeBookingState_scheme"

section \<open>The remote mapping layer\<close>

text \<open>
  \<open>new Date(v)\<close>: a string goes through the engine's parser, the parameter
  \<open>parse\<close>; \<open>null\<close> converts to the number 0, the epoch.
\<close>

fun newDate :: "(string \<Rightarrow> date) \<Rightarrow> jsonString \<Rightarrow> date" where
  "newDate parse JNull = Date 0"
| "newDate parse (JString s) = parse s"

text \<open>
  \<open>mapTimeEntry\<close> (TogglService.ts, lines 182-195). The test
  \<open>"stop" in entry\<close> is on the presence of the key.
\<close>

definition mapTimeEntry :: "(string \<Rightarrow> date) \<Rightarrow> togglTimeEntry \<Rightarrow> project list \<Rightarrow> timeEntry" where
  "mapTimeEntry parse entry ps =
     (let project = find (\<lambda>project. project_id project = tte_project_id entry) ps;
          item = \<lparr> entry_description = tte_description entry,
                   entry_duration = tte_duration entry,
                   entry_id = tte_id entry,
                   entry_project = project,
                   entry_start = newDate parse (JString (tte_start entry)),
                   entry_stop = None \<rparr>
      in case tte_stop entry of
           Some v \<Rightarrow> item\<lparr> entry_stop := Some (newDate parse v) \<rparr>
         | None \<Rightarrow> item)"

text \<open>
  The arrow function that \<open>fetchProjects\<close> maps over the response (lines 105-116):
  the client is looked up by id in the cached clients and is \<open>undefined\<close> when
  none matches.
\<close>

definition mapProject :: "client list \<Rightarrow> togglProject \<Rightarrow> project" where
  "mapProject cs project =
     (let ws = \<lparr> workspace_id = tp_workspace_id project \<rparr>
      in \<lparr> project_client = find (\<lambda>client. client_id client = tp_client_id project) cs,
           project_color = tp_color project,
           project_id = tp_id project,
           project_name = tp_name project,
           project_workspace = ws \<rparr>)"

section \<open>Library behaviour the service relies on\<close>

text \<open>
  \<open>Array.prototype.sort(compareFn)\<close>. For a consistent comparator the language
  fixes the result: the stable sorted permutation, whatever algorithm the engine runs.
  The model computes it by insertion from the right, an element going before the
  elements it does not compare greater than.
\<close>

fun insertBy :: "('a \<Rightarrow> 'a \<Rightarrow> int) \<Rightarrow> 'a \<Rightarrow> 'a list \<Rightarrow> 'a list" where
  "insertBy cmp x [] = [x]"
| "insertBy cmp x (y # ys) = (if cmp x y \<le> 0 then x # y # ys else y # insertBy cmp x ys)"

definition js_sort :: "('a \<Rightarrow> 'a \<Rightarrow> int) \<Rightarrow> 'a list \<Rightarrow> 'a list" where
  "js_sort cmp xs = foldr (insertBy cmp) xs []"

text \<open>
  What \<open>sort\<close> asks of its comparator, read as the order \<open>cmp a b \<le> 0\<close>:
  any two elements are comparable, and the order is transitive.
  \<open>String.prototype.localeCompare\<close> is such a comparator for every locale.
\<close>

definition consistentComparator :: "('a \<Rightarrow> 'a \<Rightarrow> int) \<Rightarrow> bool" where
  "consistentComparator cmp =
     ((\<forall>a b. cmp a b \<le> 0 \<or> cmp b a \<le> 0)
      \<and> (\<forall>a b c. cmp a b \<le> 0 \<longrightarrow> cmp b c \<le> 0 \<longrightarrow> cmp a c \<le> 0))"

text \<open>
  Pullstate's \<open>Store.update(updater)\<close>: the updater runs on a draft of the state.
  When it returns, the draft becomes the state; when it throws, the draft is dropped,
  the state stays as it was and the exception leaves \<open>update\<close>.
\<close>

definition store_update :: "('s \<Rightarrow> error + 's) \<Rightarrow> 's \<Rightarrow> (error + unit) \<times> 's" where
  "store_update updater s = (case updater s of Inl e \<Rightarrow> (Inl e, s) | Inr s' \<Rightarrow> (Inr (), s'))"

section \<open>The time tracking client (\<open>TogglService.ts\<close>)\<close>

text \<open>
  Every operation passes the stores explicitly and returns them. An HTTP request is a
  parameter: the answer of the remote, \<open>Inl\<close> when the promise is rejected,
  \<open>Inr data\<close> with the body of the response otherwise (\<open>None\<close> for
  \<open>null\<close>). The helpers of \<open>services/date\<close> are parameters as well, and so
  is \<open>add\<close> of date-fns, which moves a date by calendar days of the local time
  zone: \<open>addDays day n\<close> is \<open>add(day, { days: n })\<close>.
\<close>

text \<open>
  \<open>fetchProjects\<close> (lines 98-127); \<open>get workspaceId\<close> is the request
  to \<open>/workspaces/<workspaceId>/projects\<close>.
\<close>

definition fetchProjects ::
  "(string \<Rightarrow> string \<Rightarrow> int) \<Rightarrow> (int \<Rightarrow> error + togglProject list option) \<Rightarrow> int
     \<Rightarrow> ('a, 'b) stores \<Rightarrow> (error + project list) \<times> ('a, 'b) stores" where
  "fetchProjects localeCompare get workspaceId st =
     (case get workspaceId of
        Inl e \<Rightarrow> (Inl e, st)
      | Inr data \<Rightarrow>
          (let cs = clients (togglStore st) in
           case data of
             Some d \<Rightarrow>
               (let ps = js_sort (\<lambda>p1 p2. localeCompare (project_name p1) (project_name p2))
                           (map (mapProject cs) d)
                in (Inr [], st\<lparr> togglStore := (togglStore st)\<lparr> projects := ps \<rparr> \<rparr>))
           | None \<Rightarrow> (Inr [], st)))"

text \<open>
  \<open>fetchActiveTimeEntry\<close> (lines 129-149); \<open>get\<close> is the request to
  \<open>/me/time_entries/current\<close>. The updater assigns \<open>entry.project.id\<close>
  last: with \<open>project\<close> undefined that read throws a \<open>TypeError\<close>.
\<close>

definition fetchActiveTimeEntry ::
  "(date \<Rightarrow> string) \<Rightarrow> (string \<Rightarrow> date) \<Rightarrow> (error + togglTimeEntry option)
     \<Rightarrow> ('a, 'b) stores \<Rightarrow> (error + timeEntry option) \<times> ('a, 'b) stores" where
  "fetchActiveTimeEntry formatTime parse get st =
     (case get of
        Inl e \<Rightarrow> (Inl e, st)
      | Inr None \<Rightarrow> (Inr None, st)
      | Inr (Some data) \<Rightarrow>
          (let entry = mapTimeEntry parse data (projects (togglStore st)) in
           case store_update
                  (\<lambda>s. case entry_project entry of
                         None \<Rightarrow> Inl TypeError
                       | Some p \<Rightarrow>
                           Inr (s\<lparr> s_day := entry_start entry,
                                   s_description := entry_description entry,
                                   s_start := formatTime (entry_start entry),
                                   s_entry := Some entry,
                                   s_projectId := Some (project_id p) \<rparr>))
                  (timeBookingStore st) of
             (Inl e, s') \<Rightarrow> (Inl e, st\<lparr> timeBookingStore := s' \<rparr>)
           | (Inr u, s') \<Rightarrow> (Inr (Some entry), st\<lparr> timeBookingStore := s' \<rparr>)))"

text \<open>
  \<open>fetchTimeEntriesOfDay\<close> (lines 156-169), without the development-mode delay;
  \<open>get start_date end_date\<close> is the request to \<open>/me/time_entries\<close> with
  these two query parameters. \<open>data.map\<close> on a \<open>null\<close> body throws.
\<close>

definition fetchTimeEntriesOfDay ::
  "(date \<Rightarrow> string) \<Rightarrow> (date \<Rightarrow> int \<Rightarrow> date) \<Rightarrow> (timeEntry \<Rightarrow> timeEntry \<Rightarrow> int)
     \<Rightarrow> (string \<Rightarrow> date) \<Rightarrow> (string \<Rightarrow> string \<Rightarrow> error + togglTimeEntry list option) \<Rightarrow> date
     \<Rightarrow> ('a, 'b) stores \<Rightarrow> (error + timeEntry list) \<times> ('a, 'b) stores" where
  "fetchTimeEntriesOfDay formatDate addDays sortStartStopables parse get day st =
     (case get (formatDate day) (formatDate (addDays day 1)) of
        Inl e \<Rightarrow> (Inl e, st)
      | Inr None \<Rightarrow> (Inl TypeError, st)
      | Inr (Some data) \<Rightarrow>
          (Inr (js_sort sortStartStopables
                  (map (\<lambda>entry. mapTimeEntry parse entry (projects (togglStore st))) data)), st))"

text \<open>
  \<open>updateTimeEntry\<close> (lines 171-180). The \<open>try\<close> block first:
  \<open>put workspaceId entryId entry\<close> is the request to
  \<open>/workspaces/<workspaceId>/time_entries/<entryId>\<close>, and building that path reads
  \<open>entry.project.workspace.id\<close>, inside the block. \<open>Inr None\<close> is the block
  falling through its \<open>if\<close>.
\<close>

definition updateTimeEntry_try ::
  "(string \<Rightarrow> date) \<Rightarrow> (int \<Rightarrow> int \<Rightarrow> timeEntry \<Rightarrow> error + togglTimeEntry option) \<Rightarrow> timeEntry
     \<Rightarrow> ('a, 'b) stores \<Rightarrow> error + timeEntry option" where
  "updateTimeEntry_try parse put entry st =
     (case entry_project entry of
        None \<Rightarrow> Inl TypeError
      | Some p \<Rightarrow>
          (case put (workspace_id (project_workspace p)) (entry_id entry) entry of
             Inl e \<Rightarrow> Inl e
           | Inr None \<Rightarrow> Inr None
           | Inr (Some data) \<Rightarrow> Inr (Some (mapTimeEntry parse data (projects (togglStore st))))))"

text \<open>The empty \<open>catch\<close> and the \<open>return null\<close> after it.\<close>

definition updateTimeEntry ::
  "(string \<Rightarrow> date) \<Rightarrow> (int \<Rightarrow> int \<Rightarrow> timeEntry \<Rightarrow> error + togglTimeEntry option) \<Rightarrow> timeEntry
     \<Rightarrow> ('a, 'b) stores \<Rightarrow> (error + timeEntry option) \<times> ('a, 'b) stores" where
  "updateTimeEntry parse put entry st =
     (case updateTimeEntry_try parse put entry st of
        Inr (Some result) \<Rightarrow> (Inr (Some result), st)
      | Inr None \<Rightarrow> (Inr None, st)
      | Inl e \<Rightarrow> (Inr None, st))"

section \<open>Date and time utilities (\<open>services/date\<close>)\<close>

text \<open>
  The module \<open>services/date\<close> is not among the sources. Its functions are
  modelled from the specification, on wall-clock time: a time value counts the
  milliseconds of the local calendar, a day has 86400000 of them.
\<close>

text \<open>Modelled from the spec: the decimal digits in order (a helper of
  \<open>formatTime\<close>, \<open>formatDate\<close> and \<open>combineDateWithTime\<close>, which
  are missing).\<close>

definition decimalDigits :: string where
  "decimalDigits = ''0123456789''"

text \<open>Modelled from the spec: the last decimal digit of a number (a helper of
  \<open>formatTime\<close> and \<open>formatDate\<close>, which are missing).\<close>

definition digitChar :: "nat \<Rightarrow> char" where
  "digitChar n = decimalDigits ! (n mod 10)"

text \<open>Modelled from the spec: the value of a decimal digit, none for any other
  character (a helper of \<open>combineDateWithTime\<close>, which is missing).\<close>

definition digitVal :: "char \<Rightarrow> nat option" where
  "digitVal c = map_of (zip decimalDigits [0, 1, 2, 3, 4, 5, 6, 7, 8, 9]) c"

text \<open>Modelled from the spec: a number below 100 in two digits, as the fixed formats
  \<open>HH\<close> and \<open>mm\<close> print it.\<close>

definition twoDigits :: "nat \<Rightarrow> string" where
  "twoDigits n = [digitChar (n div 10), digitChar (n mod 10)]"

text \<open>Modelled from the spec: \<open>formatTime\<close> of the missing module
  \<open>services/date\<close>, which renders a timestamp as a fixed-format time of day
  \<open>HH:mm\<close>.\<close>

definition formatTime :: "date \<Rightarrow> string" where
  "formatTime d =
     (let minutes = nat ((getTime d div 60000) mod 1440)
      in twoDigits (minutes div 60) @ '':'' @ twoDigits (minutes mod 60))"

text \<open>Modelled from the spec: the valid time-of-day strings, \<open>HH:mm\<close> with the
  hour below 24 and the minute below 60, read as hour and minute (the reading half of the
  missing \<open>combineDateWithTime\<close>).\<close>

definition parseTime :: "string \<Rightarrow> (nat \<times> nat) option" where
  "parseTime t =
     (case t of
        [h1, h0, c, m1, m0] \<Rightarrow>
          (case (digitVal h1, digitVal h0, digitVal m1, digitVal m0) of
             (Some a, Some b, Some x, Some y) \<Rightarrow>
               (if c = CHR '':'' \<and> 10 * a + b < 24 \<and> 10 * x + y < 60
                then Some (10 * a + b, 10 * x + y) else None)
           | _ \<Rightarrow> None)
      | _ \<Rightarrow> None)"

text \<open>Modelled from the spec: midnight of a timestamp's calendar date (a helper of the
  missing \<open>combineDateWithTime\<close>).\<close>

definition startOfDay :: "date \<Rightarrow> int" where
  "startOfDay d = getTime d - getTime d mod 86400000"

text \<open>Modelled from the spec: \<open>combineDateWithTime\<close> of the missing module
  \<open>services/date\<close>, which produces a timestamp using the day's calendar date and
  the time string's time of day, discarding the day's original time component. A string
  that is no time of day gives no timestamp.\<close>

definition combineDateWithTime :: "date \<Rightarrow> string \<Rightarrow> date option" where
  "combineDateWithTime day timeString =
     (case parseTime timeString of
        None \<Rightarrow> None
      | Some (h, m) \<Rightarrow> Some (Date (startOfDay day + (int h * 60 + int m) * 60000)))"

text \<open>Modelled from the spec: \<open>sortStartStopables\<close> of the missing module
  \<open>services/date\<close>, the comparator under which an entry lacking a stop sorts after
  all entries that have stopped, regardless of the start times, and entries with a stop
  are ordered by start time ascending. The spec gives no rule for two entries that both
  lack a stop; they are ordered by start time as well.\<close>

definition sortStartStopables :: "'a timeEntry_scheme \<Rightarrow> 'a timeEntry_scheme \<Rightarrow> int" where
  "sortStartStopables a b =
     (case (entry_stop a, entry_stop b) of
        (None, Some y) \<Rightarrow> 1
      | (Some x, None) \<Rightarrow> - 1
      | _ \<Rightarrow> getTime (entry_start a) - getTime (entry_start b))"

text \<open>Modelled from the spec: year, month and day of month of a day counted from the
  epoch, in the Gregorian calendar (a helper of the missing \<open>formatDate\<close>).\<close>

definition civilFromDays :: "int \<Rightarrow> int \<times> int \<times> int" where
  "civilFromDays days =
     (let z = days + 719468;
          era = z div 146097;
          doe = z mod 146097;
          yoe = (doe - doe div 1460 + doe div 36524 - doe div 146096) div 365;
          doy = doe - (365 * yoe + yoe div 4 - yoe div 100);
          mp = (5 * doy + 2) div 153;
          d = doy - (153 * mp + 2) div 5 + 1;
          m = (if mp < 10 then mp + 3 else mp - 9);
          y = yoe + era * 400 + (if m \<le> 2 then 1 else 0)
      in (y, m, d))"

text \<open>Modelled from the spec: \<open>formatDate\<close> of the missing module
  \<open>services/date\<close>, which renders a timestamp as a calendar-date string, the
  date-only form of the remote's query parameters. The spec names no layout;
  \<open>yyyy-MM-dd\<close> is used.\<close>

definition formatDate :: "date \<Rightarrow> string" where
  "formatDate d =
     (case civilFromDays (getTime d div 86400000) of
        (y, m, dd) \<Rightarrow>
          twoDigits (nat y div 100 mod 100) @ twoDigits (nat y mod 100)
            @ ''-'' @ twoDigits (nat m) @ ''-'' @ twoDigits (nat dd))"

section \<open>Booking reconciliation (\<open>components/create-entry\<close>)\<close>

text \<open>
  The component \<open>CreateEntry\<close> is not among the sources; its test is. The booking
  state is the \<open>BookingStore\<close> of the test, the commit and the validation gate are
  modelled from the specification.
\<close>

record bookingState =
  day :: date
  projectId :: "int option"
  timeEntryDescription :: string
  timeEntryId :: "int option"
  timeStart :: string
  timeStop :: "string option"

text \<open>The argument of \<open>updateTimeEntry\<close>, with the fields the test expects it to be
  called with (CreateEntry.test.tsx, lines 161-168).\<close>

record timeEntryUpdate =
  upd_day :: date
  upd_projectId :: "int option"
  upd_timeEntryDescription :: string
  upd_timeEntryId :: int
  upd_timeStart :: date
  upd_timeStop :: date

text \<open>Modelled from the spec: the remote calls that the missing component issues on
  commit, \<open>stopTimeEntry(id)\<close> and \<open>updateTimeEntry(entry)\<close>.\<close>

datatype remoteCall = StopTimeEntry int | UpdateTimeEntry timeEntryUpdate

text \<open>Modelled from the spec: the state \<open>Stoppable\<close> of the missing component's
  state machine: the booking has a \<open>timeEntryId\<close>, a start time, and no stop
  time.\<close>

definition stoppable :: "bookingState \<Rightarrow> bool" where
  "stoppable bs =
     (timeEntryId bs \<noteq> None \<and> parseTime (timeStart bs) \<noteq> None \<and> timeStop bs = None)"

text \<open>Modelled from the spec: the state \<open>Completable\<close> of the missing component's
  state machine: the booking has a \<open>timeEntryId\<close>, a start time, and a stop
  time.\<close>

definition completable :: "bookingState \<Rightarrow> bool" where
  "completable bs =
     (timeEntryId bs \<noteq> None \<and> parseTime (timeStart bs) \<noteq> None
      \<and> (case timeStop bs of None \<Rightarrow> False | Some t \<Rightarrow> parseTime t \<noteq> None))"

text \<open>Modelled from the spec: the commit handler of the missing component
  \<open>CreateEntry\<close>, as the list of remote calls it issues. With no stop time it
  issues \<open>stopTimeEntry(timeEntryId)\<close>; with a stop time it issues
  \<open>updateTimeEntry\<close> with both bounds combined with the day. The spec names no
  call for a booking without a \<open>timeEntryId\<close>.\<close>

definition commit :: "bookingState \<Rightarrow> remoteCall list" where
  "commit bs =
     (case timeEntryId bs of
        None \<Rightarrow> []
      | Some entryId \<Rightarrow>
          (case timeStop bs of
             None \<Rightarrow> (if parseTime (timeStart bs) \<noteq> None then [StopTimeEntry entryId] else [])
           | Some t \<Rightarrow>
               (case (combineDateWithTime (day bs) (timeStart bs), combineDateWithTime (day bs) t) of
                  (Some start, Some stop) \<Rightarrow>
                    [UpdateTimeEntry
                       \<lparr> upd_day = day bs,
                         upd_projectId = projectId bs,
                         upd_timeEntryDescription = timeEntryDescription bs,
                         upd_timeEntryId = entryId,
                         upd_timeStart = start,
                         upd_timeStop = stop \<rparr>]
                | _ \<Rightarrow> [])))"

text \<open>Modelled from the spec: the validation of the missing component: a stop time
  strictly earlier than the start time on the same day.\<close>

definition stopBeforeStart :: "date \<Rightarrow> string \<Rightarrow> string \<Rightarrow> bool" where
  "stopBeforeStart d start stop =
     (case (combineDateWithTime d start, combineDateWithTime d stop) of
        (Some a, Some b) \<Rightarrow> getTime b < getTime a
      | _ \<Rightarrow> False)"

text \<open>Modelled from the spec: the state of the missing component \<open>CreateEntry\<close>,
  as far as the specification and the test describe it: the booking state, and the error
  status of the start and the stop input (the class \<open>ant-input-status-error\<close> of
  the test).\<close>

record createEntry =
  booking :: bookingState
  startStatusError :: bool
  stopStatusError :: bool

text \<open>Modelled from the spec: entering a start time in the missing component, which
  the test shows to store the value as \<open>timeStart\<close>.\<close>

definition inputStart :: "string \<Rightarrow> createEntry \<Rightarrow> createEntry" where
  "inputStart v ce = ce\<lparr> booking := (booking ce)\<lparr> timeStart := v \<rparr> \<rparr>"

text \<open>Modelled from the spec: entering a stop time in the missing component. A stop
  time before the start time is rejected at the input boundary and the field is flagged
  invalid; any other value is stored as \<open>timeStop\<close>.\<close>

definition inputStop :: "string \<Rightarrow> createEntry \<Rightarrow> createEntry" where
  "inputStop v ce =
     (if stopBeforeStart (day (booking ce)) (timeStart (booking ce)) v
      then ce\<lparr> stopStatusError := True \<rparr>
      else ce\<lparr> booking := (booking ce)\<lparr> timeStop := Some v \<rparr>, stopStatusError := False \<rparr>)"

text \<open>Modelled from the spec: the gate of the missing component: the commit action is
  disabled while the stop field is invalid.\<close>

definition actionDisabled :: "createEntry \<Rightarrow> bool" where
  "actionDisabled ce = stopStatusError ce"

text \<open>Modelled from the spec: the action button of the missing component, as the
  remote calls a click issues: none while the action is disabled, the commit
  otherwise.\<close>

definition clickAction :: "createEntry \<Rightarrow> remoteCall list" where
  "clickAction ce = (if actionDisabled ce then [] else commit (booking ce))"

section \<open>Example data\<close>

text \<open>
  The engine's date parser on the ISO strings that the examples use, each with its time
  value.
\<close>

definition exampleParse :: "string \<Rightarrow> date" where
  "exampleParse s =
     (if s = ''2022-11-02T08:00:00+00:00'' then Date 1667376000000
      else if s = ''2022-11-02T09:30:00+00:00'' then Date 1667381400000
      else if s = ''2022-11-02T10:15:00+00:00'' then Date 1667384100000
      else if s = ''2022-11-02T11:00:00+00:00'' then Date 1667386800000
      else Date 0)"

text \<open>A comparator of strings by their code points, one consistent comparator.\<close>

definition codePointCompare :: "string \<Rightarrow> string \<Rightarrow> int" where
  "codePointCompare a b = (if a < b then - 1 else if a = b then 0 else 1)"

text \<open>The clients and projects of the component's test, the projects in workspace 7.\<close>

definition exampleClient :: client where
  "exampleClient = \<lparr> client_id = 1, client_name = ''Client A'' \<rparr>"

definition exampleProject :: "int \<Rightarrow> string \<Rightarrow> project" where
  "exampleProject i n =
     \<lparr> project_client = Some exampleClient, project_color = ''#ffffff'', project_id = i,
       project_name = n, project_workspace = \<lparr> workspace_id = 7 \<rparr> \<rparr>"

definition exampleProjects :: "project list" where
  "exampleProjects =
     [exampleProject 1 ''Project A'', exampleProject 2 ''Project B'', exampleProject 3 ''Project C'']"

text \<open>A booking store that also holds a stop time, a field the service never assigns.\<close>

record timeBookingDraft = timeBookingState +
  s_stop :: "string option"

text \<open>The stores before any project is fetched, and with the projects cached.\<close>

definition exampleStores :: "(unit, unit timeBookingDraft_ext) stores" where
  "exampleStores =
     \<lparr> togglStore = \<lparr> clients = [exampleClient], projects = [] \<rparr>,
       timeBookingStore =
         \<lparr> s_day = Date 0, s_description = [], s_start = [], s_entry = None, s_projectId = None,
           s_stop = Some ''17:00'' \<rparr> \<rparr>"

definition exampleStoresLoaded :: "(unit, unit timeBookingDraft_ext) stores" where
  "exampleStoresLoaded =
     \<lparr> togglStore = \<lparr> clients = [exampleClient], projects = exampleProjects \<rparr>,
       timeBookingStore =
         \<lparr> s_day = Date 0, s_description = [], s_start = [], s_entry = None, s_projectId = None,
           s_stop = Some ''17:00'' \<rparr> \<rparr>"

text \<open>A remote that knows workspace 7, with three projects out of order, one of them
  of a client that is not cached.\<close>

definition exampleWireProjects :: "togglProject list" where
  "exampleWireProjects =
     [\<lparr> tp_workspace_id = 7, tp_client_id = 1, tp_color = ''#ffffff'', tp_id = 3, tp_name = ''Project C'' \<rparr>,
      \<lparr> tp_workspace_id = 7, tp_client_id = 1, tp_color = ''#ffffff'', tp_id = 1, tp_name = ''Project A'' \<rparr>,
      \<lparr> tp_workspace_id = 7, tp_client_id = 5, tp_color = ''#ffffff'', tp_id = 2, tp_name = ''Project B'' \<rparr>]"

definition exampleProjectsResponse :: "int \<Rightarrow> error + togglProject list option" where
  "exampleProjectsResponse workspaceId =
     (if workspaceId = 7 then Inr (Some exampleWireProjects) else Inl HttpError)"

text \<open>The running entry of the component's test on the wire, for a given project.\<close>

definition exampleRunning :: "int \<Rightarrow> togglTimeEntry" where
  "exampleRunning p =
     \<lparr> tte_description = ''Running Entry 1'', tte_duration = Some (- 1667376000), tte_id = 1234,
       tte_project_id = p, tte_start = ''2022-11-02T08:00:00+00:00'', tte_stop = None \<rparr>"

text \<open>The entries of 2 November 2022 as the remote lists them: the running one first,
  then two stopped ones, the later before the earlier. The remote answers the query for
  that day and rejects every other.\<close>

definition exampleWireEntries :: "togglTimeEntry list" where
  "exampleWireEntries =
     [exampleRunning 2,
      \<lparr> tte_description = ''Review'', tte_duration = Some 2700, tte_id = 1233, tte_project_id = 3,
        tte_start = ''2022-11-02T10:15:00+00:00'', tte_stop = Some (JString ''2022-11-02T11:00:00+00:00'') \<rparr>,
      \<lparr> tte_description = ''Planning'', tte_duration = Some 2700, tte_id = 1232, tte_project_id = 1,
        tte_start = ''2022-11-02T09:30:00+00:00'', tte_stop = Some (JString ''2022-11-02T10:15:00+00:00'') \<rparr>]"

definition exampleEntriesResponse :: "string \<Rightarrow> string \<Rightarrow> error + togglTimeEntry list option" where
  "exampleEntriesResponse start_date end_date =
     (if start_date = ''2022-11-02'' \<and> end_date = ''2022-11-03''
      then Inr (Some exampleWireEntries) else Inl HttpError)"

text \<open>\<open>add\<close> of date-fns by days, on dates between which the local clock does not
  change: each day is 24 hours.\<close>

definition exampleAddDays :: "date \<Rightarrow> int \<Rightarrow> date" where
  "exampleAddDays d n = Date (getTime d + n * 86400000)"

text \<open>A remote whose every update fails.\<close>

definition failingPut :: "int \<Rightarrow> int \<Rightarrow> timeEntry \<Rightarrow> error + togglTimeEntry option" where
  "failingPut workspaceId entryId entry = Inl HttpError"

text \<open>The booking of the component's test: a running entry 1234 on project 2.\<close>

definition exampleBooking :: bookingState where
  "exampleBooking =
     \<lparr> day = Date 1667381400000, projectId = Some 2, timeEntryDescription = ''Running Entry 1'',
       timeEntryId = Some 1234, timeStart = ''08:30'', timeStop = None \<rparr>"

definition exampleCreateEntry :: createEntry where
  "exampleCreateEntry =
     \<lparr> booking = exampleBooking, startStatusError = False, stopStatusError = False \<rparr>"

section \<open>Sorting with a comparator\<close>

lemma mset_insertBy: "mset (insertBy cmp x xs) = add_mset x (mset xs)"
  by (induction xs) simp_all

lemma mset_js_sort: "mset (js_sort cmp xs) = mset xs"
  by (induction xs) (simp_all add: js_sort_def mset_insertBy)

lemma set_insertBy: "set (insertBy cmp x xs) = insert x (set xs)"
  using mset_insertBy [of cmp x xs, THEN arg_cong, of set_mset] by simp

lemma length_js_sort: "length (js_sort cmp xs) = length xs"
  using mset_js_sort [of cmp xs, THEN arg_cong, of size] by simp

lemma sorted_insertBy:
  assumes cmp: "consistentComparator cmp"
      and sorted: "sorted_wrt (\<lambda>a b. cmp a b \<le> 0) xs"
  shows "sorted_wrt (\<lambda>a b. cmp a b \<le> 0) (insertBy cmp x xs)"
  using sorted
proof (induction xs)
  case Nil
  then show ?case by simp
next
  case (Cons y ys)
  show ?case
  proof (cases "cmp x y \<le> 0")
    case True
    from cmp have "\<And>z. cmp y z \<le> 0 \<Longrightarrow> cmp x z \<le> 0"
      using True unfolding consistentComparator_def by blast
    with True Cons.prems show ?thesis by auto
  next
    case False
    with cmp have "cmp y x \<le> 0"
      unfolding consistentComparator_def by blast
    with False Cons show ?thesis by (auto simp: set_insertBy)
  qed
qed

lemma sorted_js_sort:
  assumes "consistentComparator cmp"
  shows "sorted_wrt (\<lambda>a b. cmp a b \<le> 0) (js_sort cmp xs)"
proof (induction xs)
  case Nil
  then show ?case by (simp add: js_sort_def)
next
  case (Cons x xs)
  have "js_sort cmp (x # xs) = insertBy cmp x (js_sort cmp xs)"
    by (simp add: js_sort_def)
  with Cons sorted_insertBy [OF assms] show ?case by simp
qed

lemma consistentComparator_on:
  "consistentComparator cmp \<Longrightarrow> consistentComparator (\<lambda>a b. cmp (f a) (f b))"
  unfolding consistentComparator_def by blast

lemma codePointCompare_le: "(codePointCompare a b \<le> 0) = (a \<le> b)"
  by (auto simp: codePointCompare_def)

lemma consistent_codePointCompare: "consistentComparator codePointCompare"
  unfolding consistentComparator_def codePointCompare_le by auto

lemma consistent_sortStartStopables: "consistentComparator sortStartStopables"
  unfolding consistentComparator_def sortStartStopables_def
  by (auto split: option.splits)

lemma sortStartStopables_order:
  "sortStartStopables a b \<le> 0 \<Longrightarrow>
     (case (entry_stop a, entry_stop b) of
        (None, Some y) \<Rightarrow> False
      | (Some x, Some y) \<Rightarrow> getTime (entry_start a) \<le> getTime (entry_start b)
      | _ \<Rightarrow> True)"
  by (auto simp: sortStartStopables_def split: option.splits)

section \<open>mapTimeEntry\<close>

lemma mapTimeEntry_stop:
  "entry_stop (mapTimeEntry parse entry ps) = map_option (newDate parse) (tte_stop entry)"
  by (simp add: mapTimeEntry_def Let_def split: option.split)

text \<open>
  C2, as stated, fails: a wire record that carries the key \<open>stop\<close> with the value
  \<open>null\<close> is mapped to an entry whose \<open>stop\<close> is set, to
  \<open>new Date(null)\<close>, the epoch.
\<close>

theorem mapTimeEntry_null_stop_is_set:
  "tte_stop \<lparr> tte_description = ''Running Entry 1'', tte_duration = Some (- 1667376000),
              tte_id = 1234, tte_project_id = 2,
              tte_start = ''2022-11-02T08:00:00+00:00'', tte_stop = Some JNull \<rparr> = Some JNull
   \<and> entry_stop (mapTimeEntry exampleParse
        \<lparr> tte_description = ''Running Entry 1'', tte_duration = Some (- 1667376000),
          tte_id = 1234, tte_project_id = 2,
          tte_start = ''2022-11-02T08:00:00+00:00'', tte_stop = Some JNull \<rparr> [])
      = Some (Date 0)"
  by (simp add: mapTimeEntry_def)

text \<open>
  C2, amended: the mapped entry has its \<open>stop\<close> field set if and only if the wire
  record contains the key \<open>stop\<close>, whatever the value under it; a record lacking
  the key yields an entry with no \<open>stop\<close>.
\<close>

theorem mapTimeEntry_stop_iff_key:
  "(entry_stop (mapTimeEntry parse entry ps) = None) = (tte_stop entry = None)"
  by (simp add: mapTimeEntry_stop)

text \<open>
  C2, amended, on the example entries: the running entry has no key and no
  \<open>stop\<close>, the first stopped entry has its \<open>stop\<close> parsed.
\<close>

theorem mapTimeEntry_stop_iff_key_witness:
  "entry_stop (mapTimeEntry exampleParse (exampleWireEntries ! 0) exampleProjects) = None
   \<and> entry_stop (mapTimeEntry exampleParse (exampleWireEntries ! 1) exampleProjects)
       = Some (Date 1667386800000)"
  using mapTimeEntry_stop_iff_key [of exampleParse "exampleWireEntries ! 0" exampleProjects]
    mapTimeEntry_stop_iff_key [of exampleParse "exampleWireEntries ! 1" exampleProjects]
  by (simp add: mapTimeEntry_def exampleWireEntries_def exampleRunning_def exampleParse_def)

section \<open>fetchProjects\<close>

lemma fetchProjects_Some:
  "get workspaceId = Inr (Some d) \<Longrightarrow>
   fetchProjects localeCompare get workspaceId st =
     (Inr [], st\<lparr> togglStore := (togglStore st)\<lparr> projects :=
        js_sort (\<lambda>p1 p2. localeCompare (project_name p1) (project_name p2))
          (map (mapProject (clients (togglStore st))) d) \<rparr> \<rparr>)"
  by (simp add: fetchProjects_def Let_def)

lemma fetchProjects_None:
  "get workspaceId = Inr None \<Longrightarrow> fetchProjects localeCompare get workspaceId st = (Inr [], st)"
  by (simp add: fetchProjects_def)

text \<open>
  C1: whenever the request succeeds, whatever the workspace and the body of the response,
  \<open>fetchProjects\<close> returns the empty list. With a body of N projects the cached
  collection is overwritten with these N projects, mapped (the cache is a permutation of
  them and has N elements); with a \<open>null\<close> body the stores stay as they were. The
  projects are to be read from the cache, not from the return value.
\<close>

theorem fetchProjects_returns_empty:
  assumes "get workspaceId = Inr data"
  shows "fst (fetchProjects localeCompare get workspaceId st) = Inr []
         \<and> (case data of
              Some d \<Rightarrow>
                mset (projects (togglStore (snd (fetchProjects localeCompare get workspaceId st))))
                  = mset (map (mapProject (clients (togglStore st))) d)
                \<and> length (projects (togglStore (snd (fetchProjects localeCompare get workspaceId st))))
                  = length d
            | None \<Rightarrow> snd (fetchProjects localeCompare get workspaceId st) = st)"
proof (cases data)
  case None
  with assms show ?thesis by (simp add: fetchProjects_None)
next
  case (Some d)
  with assms have "get workspaceId = Inr (Some d)" by simp
  then show ?thesis
    using Some by (simp add: fetchProjects_Some mset_js_sort length_js_sort)
qed

text \<open>
  C1 on the example remote: three projects are cached and the empty list is returned.
\<close>

theorem fetchProjects_returns_empty_witness:
  "exampleProjectsResponse 7 = Inr (Some exampleWireProjects)
   \<and> fst (fetchProjects codePointCompare exampleProjectsResponse 7 exampleStores) = Inr []
   \<and> length (projects (togglStore (snd (fetchProjects codePointCompare exampleProjectsResponse 7 exampleStores)))) = 3"
  using fetchProjects_returns_empty [of exampleProjectsResponse 7 "Some exampleWireProjects" codePointCompare exampleStores]
  by (simp add: exampleProjectsResponse_def exampleWireProjects_def)

text \<open>
  C3: for every workspace and every ordering of the projects in the response, after
  \<open>fetchProjects\<close> completes with data that is not \<open>null\<close>, the cached
  project collection is sorted ascending by name under the comparison
  \<open>localeCompare\<close>, a consistent comparator.
\<close>

theorem fetchProjects_cache_sorted:
  assumes "consistentComparator localeCompare"
      and "get workspaceId = Inr (Some d)"
  shows "sorted_wrt (\<lambda>p1 p2. localeCompare (project_name p1) (project_name p2) \<le> 0)
           (projects (togglStore (snd (fetchProjects localeCompare get workspaceId st))))"
proof -
  from assms(1) have "consistentComparator (\<lambda>p1 p2. localeCompare (project_name p1) (project_name p2))"
    by (rule consistentComparator_on)
  from sorted_js_sort [OF this] assms(2) show ?thesis
    by (simp add: fetchProjects_Some)
qed

text \<open>
  C3 on the example remote, which lists C, A, B: the cache holds A, B, C.
\<close>

theorem fetchProjects_cache_sorted_witness:
  "consistentComparator codePointCompare
   \<and> exampleProjectsResponse 7 = Inr (Some exampleWireProjects)
   \<and> map project_name (projects (togglStore (snd (fetchProjects codePointCompare exampleProjectsResponse 7 exampleStores))))
       = [''Project A'', ''Project B'', ''Project C'']
   \<and> sorted_wrt (\<lambda>p1 p2. codePointCompare (project_name p1) (project_name p2) \<le> 0)
       (projects (togglStore (snd (fetchProjects codePointCompare exampleProjectsResponse 7 exampleStores))))"
proof -
  have r: "exampleProjectsResponse 7 = Inr (Some exampleWireProjects)"
    by (simp add: exampleProjectsResponse_def)
  have n: "map project_name (projects (togglStore (snd (fetchProjects codePointCompare exampleProjectsResponse 7 exampleStores))))
       = [''Project A'', ''Project B'', ''Project C'']"
    by (simp add: fetchProjects_def exampleProjectsResponse_def exampleWireProjects_def exampleStores_def
        js_sort_def mapProject_def codePointCompare_def less_char_def)
  from fetchProjects_cache_sorted
         [of codePointCompare exampleProjectsResponse 7 exampleWireProjects exampleStores]
    n r consistent_codePointCompare
  show ?thesis by simp
qed

section \<open>fetchActiveTimeEntry\<close>

lemma entry_project_mapTimeEntry:
  "entry_project (mapTimeEntry parse data ps) = find (\<lambda>p. project_id p = tte_project_id data) ps"
  by (simp add: mapTimeEntry_def Let_def split: option.split)

lemma find_project_None:
  "(find (\<lambda>p. project_id p = i) ps = None) = (i \<notin> project_id ` set ps)"
  by (auto simp: find_None_iff)

lemma fetchActiveTimeEntry_none:
  "fetchActiveTimeEntry fmt parse (Inr None) st = (Inr None, st)"
  by (simp add: fetchActiveTimeEntry_def)

lemma fetchActiveTimeEntry_unresolved:
  assumes "entry_project (mapTimeEntry parse data (projects (togglStore st))) = None"
  shows "fetchActiveTimeEntry fmt parse (Inr (Some data)) st = (Inl TypeError, st)"
  using assms by (simp add: fetchActiveTimeEntry_def store_update_def Let_def)

lemma fetchActiveTimeEntry_resolved:
  assumes "entry_project (mapTimeEntry parse data (projects (togglStore st))) = Some p"
  shows "fetchActiveTimeEntry fmt parse (Inr (Some data)) st =
           (Inr (Some (mapTimeEntry parse data (projects (togglStore st)))),
            st\<lparr> timeBookingStore := (timeBookingStore st)
                 \<lparr> s_day := entry_start (mapTimeEntry parse data (projects (togglStore st))),
                   s_description := entry_description (mapTimeEntry parse data (projects (togglStore st))),
                   s_start := fmt (entry_start (mapTimeEntry parse data (projects (togglStore st)))),
                   s_entry := Some (mapTimeEntry parse data (projects (togglStore st))),
                   s_projectId := Some (project_id p) \<rparr> \<rparr>)"
  using assms by (simp add: fetchActiveTimeEntry_def store_update_def Let_def)

text \<open>
  C6, as stated, fails: with no project cached, a running entry on the remote makes
  \<open>fetchActiveTimeEntry\<close> throw instead of returning the entry, and the
  \<open>projectId\<close> of the booking state is not overwritten.
\<close>

theorem fetchActiveTimeEntry_unresolved_project_throws:
  "fst (fetchActiveTimeEntry formatTime exampleParse (Inr (Some (exampleRunning 2))) exampleStores)
     = Inl TypeError
   \<and> s_projectId (timeBookingStore
        (snd (fetchActiveTimeEntry formatTime exampleParse (Inr (Some (exampleRunning 2))) exampleStores)))
     = None"
  by (simp add: fetchActiveTimeEntry_def store_update_def mapTimeEntry_def exampleRunning_def
      exampleStores_def)

text \<open>
  C6, amended: \<open>fetchActiveTimeEntry\<close> returns \<open>null\<close> and leaves every
  booking-state field unchanged when the remote reports no running entry; when a running
  entry exists and its project is in the cached project collection, it returns the mapped
  entry and overwrites exactly the booking-state fields \<open>day\<close>,
  \<open>description\<close>, \<open>start\<close>, \<open>entry\<close> and \<open>projectId\<close>.
  Every other booking-state field, and the Toggl store, is left unchanged in every case.
\<close>

theorem fetchActiveTimeEntry_frame:
  "(get = Inr None \<longrightarrow> fetchActiveTimeEntry fmt parse get st = (Inr None, st))
   \<and> (get = Inr (Some data)
        \<and> find (\<lambda>p. project_id p = tte_project_id data) (projects (togglStore st)) = Some p \<longrightarrow>
        fetchActiveTimeEntry fmt parse get st =
          (Inr (Some (mapTimeEntry parse data (projects (togglStore st)))),
           st\<lparr> timeBookingStore := (timeBookingStore st)
                \<lparr> s_day := entry_start (mapTimeEntry parse data (projects (togglStore st))),
                  s_description := tte_description data,
                  s_start := fmt (entry_start (mapTimeEntry parse data (projects (togglStore st)))),
                  s_entry := Some (mapTimeEntry parse data (projects (togglStore st))),
                  s_projectId := Some (tte_project_id data) \<rparr> \<rparr>))
   \<and> timeBookingState.more (timeBookingStore (snd (fetchActiveTimeEntry fmt parse get st)))
       = timeBookingState.more (timeBookingStore st)
   \<and> togglStore (snd (fetchActiveTimeEntry fmt parse get st)) = togglStore st"
proof (intro conjI impI)
  assume "get = Inr None"
  then show "fetchActiveTimeEntry fmt parse get st = (Inr None, st)"
    by (simp add: fetchActiveTimeEntry_none)
next
  assume a: "get = Inr (Some data)
        \<and> find (\<lambda>p. project_id p = tte_project_id data) (projects (togglStore st)) = Some p"
  then have p: "entry_project (mapTimeEntry parse data (projects (togglStore st))) = Some p"
    by (simp add: entry_project_mapTimeEntry)
  from a have i: "project_id p = tte_project_id data"
    by (auto simp: find_Some_iff)
  have d: "entry_description (mapTimeEntry parse data (projects (togglStore st))) = tte_description data"
    by (simp add: mapTimeEntry_def Let_def split: option.split)
  from a fetchActiveTimeEntry_resolved [OF p, where fmt = fmt] i d
  show "fetchActiveTimeEntry fmt parse get st =
          (Inr (Some (mapTimeEntry parse data (projects (togglStore st)))),
           st\<lparr> timeBookingStore := (timeBookingStore st)
                \<lparr> s_day := entry_start (mapTimeEntry parse data (projects (togglStore st))),
                  s_description := tte_description data,
                  s_start := fmt (entry_start (mapTimeEntry parse data (projects (togglStore st)))),
                  s_entry := Some (mapTimeEntry parse data (projects (togglStore st))),
                  s_projectId := Some (tte_project_id data) \<rparr> \<rparr>)"
    by simp
next
  show "timeBookingState.more (timeBookingStore (snd (fetchActiveTimeEntry fmt parse get st)))
       = timeBookingState.more (timeBookingStore st)"
    by (simp add: fetchActiveTimeEntry_def store_update_def Let_def
        split: sum.split option.split)
next
  show "togglStore (snd (fetchActiveTimeEntry fmt parse get st)) = togglStore st"
    by (simp add: fetchActiveTimeEntry_def store_update_def Let_def
        split: sum.split option.split)
qed

text \<open>
  C6, amended, on the example stores: the running entry of project 2 fills the five
  fields, and the stop time of the booking store stays \<open>17:00\<close>.
\<close>

theorem fetchActiveTimeEntry_frame_witness:
  "find (\<lambda>p. project_id p = tte_project_id (exampleRunning 2)) (projects (togglStore exampleStoresLoaded))
     = Some (exampleProject 2 ''Project B'')
   \<and> fst (fetchActiveTimeEntry formatTime exampleParse (Inr (Some (exampleRunning 2))) exampleStoresLoaded)
     = Inr (Some (mapTimeEntry exampleParse (exampleRunning 2) exampleProjects))
   \<and> timeBookingStore
       (snd (fetchActiveTimeEntry formatTime exampleParse (Inr (Some (exampleRunning 2))) exampleStoresLoaded))
     = \<lparr> s_day = Date 1667376000000, s_description = ''Running Entry 1'', s_start = ''08:00'',
         s_entry = Some (mapTimeEntry exampleParse (exampleRunning 2) exampleProjects),
         s_projectId = Some 2, s_stop = Some ''17:00'' \<rparr>"
proof -
  have f: "find (\<lambda>p. project_id p = tte_project_id (exampleRunning 2)) (projects (togglStore exampleStoresLoaded))
     = Some (exampleProject 2 ''Project B'')"
    by (simp add: exampleRunning_def exampleStoresLoaded_def exampleProjects_def exampleProject_def)
  have s: "entry_start (mapTimeEntry exampleParse (exampleRunning 2) exampleProjects) = Date 1667376000000"
    by (simp add: mapTimeEntry_def exampleRunning_def exampleParse_def)
  have t: "formatTime (Date 1667376000000) = ''08:00''"
    by (simp add: formatTime_def twoDigits_def digitChar_def decimalDigits_def)
  have l: "projects (togglStore exampleStoresLoaded) = exampleProjects"
    and b: "timeBookingStore exampleStoresLoaded =
        \<lparr> s_day = Date 0, s_description = [], s_start = [], s_entry = None, s_projectId = None,
           s_stop = Some ''17:00'' \<rparr>"
    by (simp_all add: exampleStoresLoaded_def)
  have r: "tte_description (exampleRunning 2) = ''Running Entry 1''" "tte_project_id (exampleRunning 2) = 2"
    by (simp_all add: exampleRunning_def)
  from fetchActiveTimeEntry_frame
         [where get = "Inr (Some (exampleRunning 2))" and fmt = formatTime
            and parse = exampleParse and st = exampleStoresLoaded
            and data = "exampleRunning 2" and p = "exampleProject 2 ''Project B''"]
    f
  have "fetchActiveTimeEntry formatTime exampleParse (Inr (Some (exampleRunning 2))) exampleStoresLoaded =
          (Inr (Some (mapTimeEntry exampleParse (exampleRunning 2) exampleProjects)),
           exampleStoresLoaded\<lparr> timeBookingStore := (timeBookingStore exampleStoresLoaded)
                \<lparr> s_day := Date 1667376000000,
                  s_description := ''Running Entry 1'',
                  s_start := ''08:00'',
                  s_entry := Some (mapTimeEntry exampleParse (exampleRunning 2) exampleProjects),
                  s_projectId := Some 2 \<rparr> \<rparr>)"
    by (simp add: l s t r)
  then show ?thesis
    using f by (simp add: b)
qed

text \<open>
  C10: when the remote reports a running entry, \<open>fetchActiveTimeEntry\<close> throws a
  \<open>TypeError\<close> if and only if the entry's \<open>project_id\<close> matches no project
  of the cached collection: the error branch is unreachable exactly when the project is
  in the cache.
\<close>

theorem fetchActiveTimeEntry_throws_iff_unresolved:
  assumes "get = Inr (Some data)"
  shows "(fst (fetchActiveTimeEntry fmt parse get st) = Inl TypeError)
         = (tte_project_id data \<notin> project_id ` set (projects (togglStore st)))"
proof (cases "entry_project (mapTimeEntry parse data (projects (togglStore st)))")
  case None
  then have "tte_project_id data \<notin> project_id ` set (projects (togglStore st))"
    by (simp add: entry_project_mapTimeEntry find_project_None)
  with assms fetchActiveTimeEntry_unresolved [OF None, where fmt = fmt] show ?thesis
    by simp
next
  case (Some p)
  then have "\<not> tte_project_id data \<notin> project_id ` set (projects (togglStore st))"
    using find_project_None [of "tte_project_id data" "projects (togglStore st)"]
    by (simp add: entry_project_mapTimeEntry)
  with assms fetchActiveTimeEntry_resolved [OF Some, where fmt = fmt] show ?thesis
    by simp
qed

text \<open>
  C10 on the example stores: project 9 is not cached and the call throws; project 2 is
  cached and it does not.
\<close>

theorem fetchActiveTimeEntry_throws_iff_unresolved_witness:
  "9 \<notin> project_id ` set (projects (togglStore exampleStoresLoaded))
   \<and> fst (fetchActiveTimeEntry formatTime exampleParse (Inr (Some (exampleRunning 9))) exampleStoresLoaded)
       = Inl TypeError
   \<and> 2 \<in> project_id ` set (projects (togglStore exampleStoresLoaded))
   \<and> fst (fetchActiveTimeEntry formatTime exampleParse (Inr (Some (exampleRunning 2))) exampleStoresLoaded)
       \<noteq> Inl TypeError"
proof -
  have m: "project_id ` set (projects (togglStore exampleStoresLoaded)) = {1, 2, 3}"
    by (simp add: exampleStoresLoaded_def exampleProjects_def exampleProject_def)
  have i: "tte_project_id (exampleRunning 9) = 9" "tte_project_id (exampleRunning 2) = 2"
    by (simp_all add: exampleRunning_def)
  from fetchActiveTimeEntry_throws_iff_unresolved
         [where get = "Inr (Some (exampleRunning 9))" and data = "exampleRunning 9"
            and fmt = formatTime and parse = exampleParse and st = exampleStoresLoaded]
       fetchActiveTimeEntry_throws_iff_unresolved
         [where get = "Inr (Some (exampleRunning 2))" and data = "exampleRunning 2"
            and fmt = formatTime and parse = exampleParse and st = exampleStoresLoaded]
  show ?thesis
    by (simp add: m i)
qed

section \<open>updateTimeEntry\<close>

text \<open>
  C5: for every entry, when anything in the \<open>try\<close> block of
  \<open>updateTimeEntry\<close> fails, in particular when the request is rejected (a
  network error or a status outside 2xx), the call returns \<open>null\<close> with the
  stores unchanged. No call propagates an exception, and no call changes the stores.
\<close>

theorem updateTimeEntry_swallows_failure:
  "(updateTimeEntry_try parse put entry st = Inl e \<longrightarrow>
      updateTimeEntry parse put entry st = (Inr None, st))
   \<and> (entry_project entry = Some p
        \<and> put (workspace_id (project_workspace p)) (entry_id entry) entry = Inl e \<longrightarrow>
      updateTimeEntry parse put entry st = (Inr None, st))
   \<and> fst (updateTimeEntry parse put entry st) \<noteq> Inl e'
   \<and> snd (updateTimeEntry parse put entry st) = st"
  by (simp add: updateTimeEntry_def updateTimeEntry_try_def split: sum.split option.split)

text \<open>
  C5 on a remote whose update fails: \<open>null\<close>, and the stores as they were.
\<close>

theorem updateTimeEntry_swallows_failure_witness:
  "entry_project (mapTimeEntry exampleParse (exampleRunning 2) exampleProjects)
     = Some (exampleProject 2 ''Project B'')
   \<and> failingPut (workspace_id (project_workspace (exampleProject 2 ''Project B'')))
        (entry_id (mapTimeEntry exampleParse (exampleRunning 2) exampleProjects))
        (mapTimeEntry exampleParse (exampleRunning 2) exampleProjects) = Inl HttpError
   \<and> updateTimeEntry exampleParse failingPut
        (mapTimeEntry exampleParse (exampleRunning 2) exampleProjects) exampleStoresLoaded
     = (Inr None, exampleStoresLoaded)"
proof -
  have p: "entry_project (mapTimeEntry exampleParse (exampleRunning 2) exampleProjects)
     = Some (exampleProject 2 ''Project B'')"
    by (simp add: entry_project_mapTimeEntry exampleRunning_def exampleProjects_def exampleProject_def)
  from updateTimeEntry_swallows_failure
         [where parse = exampleParse and put = failingPut
            and entry = "mapTimeEntry exampleParse (exampleRunning 2) exampleProjects"
            and st = exampleStoresLoaded and e = HttpError and p = "exampleProject 2 ''Project B''"]
    p
  show ?thesis by (simp add: failingPut_def)
qed

section \<open>fetchTimeEntriesOfDay\<close>

lemma formatDate_example:
  "formatDate (Date 1667381400000) = ''2022-11-02''"
  "formatDate (exampleAddDays (Date 1667381400000) 1) = ''2022-11-03''"
  by code_simp+

text \<open>
  C7: for every day, \<open>fetchTimeEntriesOfDay\<close> queries the remote with
  \<open>start_date\<close> the formatted day and \<open>end_date\<close> the formatted date of
  the day plus one day, as \<open>add\<close> of date-fns moves it, whatever the time zone; the
  entries the remote answers with are returned mapped and sorted by the
  comparator, whichever consistent comparator it is. Under \<open>sortStartStopables\<close>
  that order is: no running entry before a stopped one, and the stopped entries by start
  time ascending. The stores are unchanged.
\<close>

theorem fetchTimeEntriesOfDay_query_and_order:
  assumes "get (fmtDate dy) (fmtDate (addDays dy 1)) = Inr (Some data)"
  shows "snd (fetchTimeEntriesOfDay fmtDate addDays cmp parse get dy st) = st
         \<and> (\<exists>r. fst (fetchTimeEntriesOfDay fmtDate addDays cmp parse get dy st) = Inr r
              \<and> mset r = mset (map (\<lambda>entry. mapTimeEntry parse entry (projects (togglStore st))) data)
              \<and> (consistentComparator cmp \<longrightarrow> sorted_wrt (\<lambda>a b. cmp a b \<le> 0) r))
         \<and> (\<exists>r. fst (fetchTimeEntriesOfDay fmtDate addDays sortStartStopables parse get dy st) = Inr r
              \<and> sorted_wrt
                  (\<lambda>a b. case (entry_stop a, entry_stop b) of
                           (None, Some y) \<Rightarrow> False
                         | (Some x, Some y) \<Rightarrow> getTime (entry_start a) \<le> getTime (entry_start b)
                         | _ \<Rightarrow> True) r)"
proof -
  let ?mapped = "map (\<lambda>entry. mapTimeEntry parse entry (projects (togglStore st))) data"
  from assms have f: "\<And>c. fetchTimeEntriesOfDay fmtDate addDays c parse get dy st = (Inr (js_sort c ?mapped), st)"
    by (simp add: fetchTimeEntriesOfDay_def)
  have "sorted_wrt (\<lambda>a b. sortStartStopables a b \<le> 0) (js_sort sortStartStopables ?mapped)"
    by (rule sorted_js_sort [OF consistent_sortStartStopables])
  then have "sorted_wrt
                  (\<lambda>a b. case (entry_stop a, entry_stop b) of
                           (None, Some y) \<Rightarrow> False
                         | (Some x, Some y) \<Rightarrow> getTime (entry_start a) \<le> getTime (entry_start b)
                         | _ \<Rightarrow> True) (js_sort sortStartStopables ?mapped)"
    by (rule sorted_wrt_mono_rel [rotated]) (rule sortStartStopables_order)
  then show ?thesis
    by (simp add: f mset_js_sort sorted_js_sort)
qed

text \<open>
  C7 on the example remote, which answers only the query from
  \<open>2022-11-02\<close> to \<open>2022-11-03\<close>: the two stopped entries come first, by
  start time, and the running entry, the earliest to start, comes last.
\<close>

theorem fetchTimeEntriesOfDay_query_and_order_witness:
  "exampleEntriesResponse (formatDate (Date 1667381400000)) (formatDate (exampleAddDays (Date 1667381400000) 1))
     = Inr (Some exampleWireEntries)
   \<and> map entry_id (case fst (fetchTimeEntriesOfDay formatDate exampleAddDays sortStartStopables exampleParse
                               exampleEntriesResponse (Date 1667381400000) exampleStoresLoaded) of
                     Inr r \<Rightarrow> r | Inl e \<Rightarrow> [])
     = [1232, 1233, 1234]
   \<and> map entry_stop (case fst (fetchTimeEntriesOfDay formatDate exampleAddDays sortStartStopables exampleParse
                               exampleEntriesResponse (Date 1667381400000) exampleStoresLoaded) of
                     Inr r \<Rightarrow> r | Inl e \<Rightarrow> [])
     = [Some (Date 1667384100000), Some (Date 1667386800000), None]"
proof -
  have q: "exampleEntriesResponse (formatDate (Date 1667381400000))
             (formatDate (exampleAddDays (Date 1667381400000) 1)) = Inr (Some exampleWireEntries)"
    by (simp add: formatDate_example exampleEntriesResponse_def)
  have r: "fetchTimeEntriesOfDay formatDate exampleAddDays sortStartStopables exampleParse
             exampleEntriesResponse (Date 1667381400000) exampleStoresLoaded
           = (Inr (js_sort sortStartStopables
                (map (\<lambda>entry. mapTimeEntry exampleParse entry (projects (togglStore exampleStoresLoaded)))
                   exampleWireEntries)), exampleStoresLoaded)"
    using q by (simp add: fetchTimeEntriesOfDay_def)
  have i: "map entry_id (js_sort sortStartStopables
                (map (\<lambda>entry. mapTimeEntry exampleParse entry (projects (togglStore exampleStoresLoaded)))
                   exampleWireEntries)) = [1232, 1233, 1234]"
    by (simp add: js_sort_def sortStartStopables_def mapTimeEntry_def exampleWireEntries_def
        exampleRunning_def exampleParse_def)
  have s: "map entry_stop (js_sort sortStartStopables
                (map (\<lambda>entry. mapTimeEntry exampleParse entry (projects (togglStore exampleStoresLoaded)))
                   exampleWireEntries))
           = [Some (Date 1667384100000), Some (Date 1667386800000), None]"
    by (simp add: js_sort_def sortStartStopables_def mapTimeEntry_def exampleWireEntries_def
        exampleRunning_def exampleParse_def)
  from fetchTimeEntriesOfDay_query_and_order
         [where get = exampleEntriesResponse and fmtDate = formatDate and addDays = exampleAddDays
            and dy = "Date 1667381400000"
            and data = exampleWireEntries and parse = exampleParse and st = exampleStoresLoaded
            and cmp = sortStartStopables]
    q
  show ?thesis
    by (simp add: r i s)
qed

section \<open>Date and time utilities\<close>

lemma digitVal_Some: "digitVal c = Some n \<Longrightarrow> n < 10 \<and> digitChar n = c"
  by (auto simp: digitVal_def digitChar_def decimalDigits_def split: if_splits)

lemma twoDigits_decimal: "b < 10 \<Longrightarrow> twoDigits (10 * a + b) = [digitChar a, digitChar b]"
  by (simp add: twoDigits_def)

lemma parseTime_Some:
  assumes "parseTime t = Some (h, m)"
  shows "t = twoDigits h @ '':'' @ twoDigits m \<and> h < 24 \<and> m < 60"
proof -
  from assms obtain h1 h0 c m1 m0 where t: "t = [h1, h0, c, m1, m0]"
    by (auto simp: parseTime_def split: list.splits)
  from assms t obtain a b x y where
    d: "digitVal h1 = Some a" "digitVal h0 = Some b" "digitVal m1 = Some x" "digitVal m0 = Some y"
    by (auto simp: parseTime_def split: option.splits)
  from assms t d have c: "c = CHR '':''" and h: "h = 10 * a + b" and m: "m = 10 * x + y"
    and bounds: "h < 24" "m < 60"
    by (auto simp: parseTime_def split: if_splits)
  from d have "b < 10" "y < 10" "digitChar a = h1" "digitChar b = h0" "digitChar x = m1" "digitChar y = m0"
    using digitVal_Some by blast+
  with t c h m bounds show ?thesis
    by (simp add: twoDigits_decimal)
qed

lemma startOfDay_dvd: "startOfDay d = 86400000 * (getTime d div 86400000)"
  by (simp add: startOfDay_def minus_mod_eq_mult_div)

lemma minutes_of_combined:
  assumes "h < 24" "m < 60"
  shows "nat (((startOfDay d + (int h * 60 + int m) * 60000) div 60000) mod 1440) = h * 60 + m"
proof -
  have "startOfDay d + (int h * 60 + int m) * 60000
        = (1440 * (getTime d div 86400000) + (int h * 60 + int m)) * 60000"
    by (simp add: startOfDay_dvd)
  then have "(startOfDay d + (int h * 60 + int m) * 60000) div 60000
        = 1440 * (getTime d div 86400000) + (int h * 60 + int m)"
    by simp
  moreover from assms have "0 \<le> int h * 60 + int m" "int h * 60 + int m < 1440"
    by simp_all
  ultimately have "((startOfDay d + (int h * 60 + int m) * 60000) div 60000) mod 1440 = int h * 60 + int m"
    by simp
  then show ?thesis by simp
qed

lemma formatTime_combined:
  assumes "h < 24" "m < 60"
  shows "formatTime (Date (startOfDay d + (int h * 60 + int m) * 60000)) = twoDigits h @ '':'' @ twoDigits m"
proof -
  have "formatTime (Date (startOfDay d + (int h * 60 + int m) * 60000))
        = twoDigits ((h * 60 + m) div 60) @ '':'' @ twoDigits ((h * 60 + m) mod 60)"
    unfolding formatTime_def date.sel minutes_of_combined [OF assms] Let_def ..
  with assms show ?thesis by simp
qed

lemma day_of_combined:
  assumes "h < 24" "m < 60"
  shows "(startOfDay d + (int h * 60 + int m) * 60000) div 86400000 = getTime d div 86400000"
    and "(startOfDay d + (int h * 60 + int m) * 60000) mod 86400000 = (int h * 60 + int m) * 60000"
proof -
  from assms have b: "0 \<le> (int h * 60 + int m) * 60000" "(int h * 60 + int m) * 60000 < 86400000"
    by simp_all
  have e: "startOfDay d + (int h * 60 + int m) * 60000
        = (int h * 60 + int m) * 60000 + (getTime d div 86400000) * 86400000"
    by (simp add: startOfDay_dvd)
  from b show "(startOfDay d + (int h * 60 + int m) * 60000) div 86400000 = getTime d div 86400000"
    unfolding e by (simp add: div_pos_pos_trivial)
  from b show "(startOfDay d + (int h * 60 + int m) * 60000) mod 86400000 = (int h * 60 + int m) * 60000"
    unfolding e by (simp add: mod_pos_pos_trivial)
qed

text \<open>
  C9: for every day and every valid time-of-day string \<open>t\<close>,
  \<open>formatTime (combineDateWithTime day t) = t\<close>; the combined timestamp lies on
  the calendar date of the day, and its time of day is that of \<open>t\<close>, whatever the
  time component of the day was.
\<close>

theorem combineDateWithTime_roundtrip:
  assumes "parseTime t = Some (h, m)"
  shows "map_option formatTime (combineDateWithTime dy t) = Some t
         \<and> map_option (\<lambda>d. getTime d div 86400000) (combineDateWithTime dy t)
             = Some (getTime dy div 86400000)
         \<and> map_option (\<lambda>d. getTime d mod 86400000) (combineDateWithTime dy t)
             = Some ((int h * 60 + int m) * 60000)"
proof -
  from parseTime_Some [OF assms] have t: "t = twoDigits h @ '':'' @ twoDigits m" and b: "h < 24" "m < 60"
    by simp_all
  have c: "combineDateWithTime dy t = Some (Date (startOfDay dy + (int h * 60 + int m) * 60000))"
    using assms by (simp add: combineDateWithTime_def)
  show ?thesis
    unfolding c using t formatTime_combined [OF b] day_of_combined [OF b] by simp
qed

text \<open>
  C9 at 09:00 on 2 November 2022, the day given with the time 09:30.
\<close>

theorem combineDateWithTime_roundtrip_witness:
  "parseTime ''09:00'' = Some (9, 0)
   \<and> combineDateWithTime (Date 1667381400000) ''09:00'' = Some (Date 1667379600000)
   \<and> formatTime (Date 1667379600000) = ''09:00''"
  using combineDateWithTime_roundtrip [of "''09:00''" 9 0 "Date 1667381400000"]
  by (simp add: combineDateWithTime_def parseTime_def digitVal_def decimalDigits_def startOfDay_def)


section \<open>Booking reconciliation\<close>

lemma combineDateWithTime_Some:
  "parseTime t \<noteq> None \<Longrightarrow> \<exists>d. combineDateWithTime dy t = Some d"
  by (auto simp: combineDateWithTime_def)

text \<open>
  C4: on commit of a booking with a \<open>timeEntryId\<close>, a start time and no stop
  time, the calls issued are exactly one \<open>stopTimeEntry(timeEntryId)\<close>; with a
  start and a stop time they are exactly one \<open>updateTimeEntry\<close>, with both times
  combined with the day and the description and the project unchanged.
\<close>

theorem commit_by_state:
  assumes "timeEntryId bs = Some entryId"
  shows "(stoppable bs \<longrightarrow> commit bs = [StopTimeEntry entryId])
         \<and> (completable bs \<longrightarrow>
              (\<exists>t start stop.
                 timeStop bs = Some t
                 \<and> combineDateWithTime (day bs) (timeStart bs) = Some start
                 \<and> combineDateWithTime (day bs) t = Some stop
                 \<and> commit bs =
                     [UpdateTimeEntry
                        \<lparr> upd_day = day bs,
                          upd_projectId = projectId bs,
                          upd_timeEntryDescription = timeEntryDescription bs,
                          upd_timeEntryId = entryId,
                          upd_timeStart = start,
                          upd_timeStop = stop \<rparr>]))"
proof (intro conjI impI)
  assume "stoppable bs"
  with assms show "commit bs = [StopTimeEntry entryId]"
    by (simp add: stoppable_def commit_def)
next
  assume c: "completable bs"
  then obtain t where t: "timeStop bs = Some t" and pt: "parseTime t \<noteq> None"
    and ps: "parseTime (timeStart bs) \<noteq> None"
    by (auto simp: completable_def split: option.splits)
  from combineDateWithTime_Some [OF ps] obtain start
    where start: "combineDateWithTime (day bs) (timeStart bs) = Some start" by blast
  from combineDateWithTime_Some [OF pt] obtain stop
    where stop: "combineDateWithTime (day bs) t = Some stop" by blast
  from assms t start stop have "commit bs =
                     [UpdateTimeEntry
                        \<lparr> upd_day = day bs,
                          upd_projectId = projectId bs,
                          upd_timeEntryDescription = timeEntryDescription bs,
                          upd_timeEntryId = entryId,
                          upd_timeStart = start,
                          upd_timeStop = stop \<rparr>]"
    by (simp add: commit_def)
  with t start stop show "\<exists>t start stop.
                 timeStop bs = Some t
                 \<and> combineDateWithTime (day bs) (timeStart bs) = Some start
                 \<and> combineDateWithTime (day bs) t = Some stop
                 \<and> commit bs =
                     [UpdateTimeEntry
                        \<lparr> upd_day = day bs,
                          upd_projectId = projectId bs,
                          upd_timeEntryDescription = timeEntryDescription bs,
                          upd_timeEntryId = entryId,
                          upd_timeStart = start,
                          upd_timeStop = stop \<rparr>]"
    by blast
qed

text \<open>
  C4 on the booking of the test: entry 1234 with the start edited to 09:00, without and
  with the stop 10:00.
\<close>

theorem commit_by_state_witness:
  "stoppable (exampleBooking\<lparr> timeStart := ''09:00'' \<rparr>)
   \<and> commit (exampleBooking\<lparr> timeStart := ''09:00'' \<rparr>) = [StopTimeEntry 1234]
   \<and> completable (exampleBooking\<lparr> timeStart := ''09:00'', timeStop := Some ''10:00'' \<rparr>)
   \<and> commit (exampleBooking\<lparr> timeStart := ''09:00'', timeStop := Some ''10:00'' \<rparr>) =
       [UpdateTimeEntry
          \<lparr> upd_day = Date 1667381400000, upd_projectId = Some 2,
            upd_timeEntryDescription = ''Running Entry 1'', upd_timeEntryId = 1234,
            upd_timeStart = Date 1667379600000, upd_timeStop = Date 1667383200000 \<rparr>]"
proof -
  have s: "stoppable (exampleBooking\<lparr> timeStart := ''09:00'' \<rparr>)"
    by (simp add: stoppable_def exampleBooking_def parseTime_def digitVal_def decimalDigits_def)
  have c: "completable (exampleBooking\<lparr> timeStart := ''09:00'', timeStop := Some ''10:00'' \<rparr>)"
    by (simp add: completable_def exampleBooking_def parseTime_def digitVal_def decimalDigits_def)
  have t: "combineDateWithTime (Date 1667381400000) ''09:00'' = Some (Date 1667379600000)"
    "combineDateWithTime (Date 1667381400000) ''10:00'' = Some (Date 1667383200000)"
    by (simp_all add: combineDateWithTime_def parseTime_def digitVal_def decimalDigits_def startOfDay_def)
  from commit_by_state [of "exampleBooking\<lparr> timeStart := ''09:00'' \<rparr>" 1234]
       commit_by_state [of "exampleBooking\<lparr> timeStart := ''09:00'', timeStop := Some ''10:00'' \<rparr>" 1234]
       s c
  show ?thesis
    by (simp add: exampleBooking_def t)
qed

text \<open>
  C8: entering a stop time strictly earlier than the start time of the same day flags the
  stop field invalid and leaves the flag of the start field as it was; the commit action
  is disabled, and a click on it issues no remote call.
\<close>

theorem stop_before_start_gates_commit:
  assumes "stopBeforeStart (day (booking ce)) (timeStart (booking ce)) v"
  shows "stopStatusError (inputStop v ce)
         \<and> startStatusError (inputStop v ce) = startStatusError ce
         \<and> actionDisabled (inputStop v ce)
         \<and> clickAction (inputStop v ce) = []"
  using assms by (simp add: inputStop_def actionDisabled_def clickAction_def)

text \<open>
  C8 on the scenario of the test, start 09:00 and stop 08:59, on a running entry: the
  click issues nothing, where the commit alone would stop the entry.
\<close>

theorem stop_before_start_gates_commit_witness:
  "stopBeforeStart (day (booking (inputStart ''09:00'' exampleCreateEntry)))
     (timeStart (booking (inputStart ''09:00'' exampleCreateEntry))) ''08:59''
   \<and> stopStatusError (inputStop ''08:59'' (inputStart ''09:00'' exampleCreateEntry))
   \<and> startStatusError (inputStop ''08:59'' (inputStart ''09:00'' exampleCreateEntry)) = False
   \<and> actionDisabled (inputStop ''08:59'' (inputStart ''09:00'' exampleCreateEntry))
   \<and> clickAction (inputStop ''08:59'' (inputStart ''09:00'' exampleCreateEntry)) = []
   \<and> commit (booking (inputStop ''08:59'' (inputStart ''09:00'' exampleCreateEntry))) = [StopTimeEntry 1234]"
proof -
  have b: "stopBeforeStart (day (booking (inputStart ''09:00'' exampleCreateEntry)))
     (timeStart (booking (inputStart ''09:00'' exampleCreateEntry))) ''08:59''"
    by (simp add: stopBeforeStart_def inputStart_def exampleCreateEntry_def exampleBooking_def
        combineDateWithTime_def parseTime_def digitVal_def decimalDigits_def startOfDay_def)
  have c: "commit (booking (inputStop ''08:59'' (inputStart ''09:00'' exampleCreateEntry))) = [StopTimeEntry 1234]"
    using b by (simp add: inputStop_def inputStart_def exampleCreateEntry_def exampleBooking_def
        commit_def parseTime_def digitVal_def decimalDigits_def)
  have s: "startStatusError (inputStart ''09:00'' exampleCreateEntry) = False"
    by (simp add: inputStart_def exampleCreateEntry_def)
  from stop_before_start_gates_commit [OF b] c s
  show ?thesis using b by simp
qed

end
